theory Spec2Isabelle
  imports Complex_Main "HOL-Library.AList" "HOL-Library.Sublist"
begin

section \<open>Python helpers\<close>

text \<open>
  \<^verbatim>\<open>str(n)\<close> and the \<^verbatim>\<open>{n}\<close> of an f-string, for a non-negative integer: its decimal
  digits.
\<close>

fun str_nat :: "nat \<Rightarrow> string" where
  "str_nat n =
     (if n < 10 then [''0123456789'' ! n]
      else str_nat (n div 10) @ [''0123456789'' ! (n mod 10)])"

declare str_nat.simps [simp del]

text \<open>\<^verbatim>\<open>sub in s\<close> on strings: \<open>sub\<close> occurs in \<open>s\<close> as a contiguous piece.\<close>

fun py_in :: "string \<Rightarrow> string \<Rightarrow> bool" where
  "py_in sub [] = (sub = [])"
| "py_in sub (c # cs) = (prefix sub (c # cs) \<or> py_in sub cs)"

text \<open>
  A dict comprehension \<^verbatim>\<open>{key(p): p for p in rows}\<close>. A Python dict keeps its keys in
  the order of their first insertion and the value of the last one, which is what
  \<^const>\<open>AList.update\<close> does on an association list.
\<close>

definition dict_of :: "('r \<Rightarrow> 'k) \<Rightarrow> 'r list \<Rightarrow> ('k \<times> 'r) list" where
  "dict_of key rows = foldl (\<lambda>d p. AList.update (key p) p d) [] rows"

section \<open>continuous\_test\_runner.py\<close>

subsection \<open>Configuration and the simulated nodes\<close>

text \<open>An entry of \<^verbatim>\<open>PC_CONFIG\<close>: the keys \<^verbatim>\<open>id\<close>, \<^verbatim>\<open>role\<close> and \<^verbatim>\<open>type\<close> (the emoji is left out).\<close>

record pc_entry =
  pc_ident :: string
  pc_role :: string
  pc_type :: string

definition PC_CONFIG :: "pc_entry list" where
  "PC_CONFIG =
     [\<lparr>pc_ident = ''PC-PDV-01'', pc_role = ''MASTER'', pc_type = ''PDV''\<rparr>,
      \<lparr>pc_ident = ''PC-PDV-02'', pc_role = ''SATELLITE'', pc_type = ''PDV''\<rparr>,
      \<lparr>pc_ident = ''PC-ESTQ'', pc_role = ''SATELLITE'', pc_type = ''STOCK''\<rparr>,
      \<lparr>pc_ident = ''PC-GER'', pc_role = ''SATELLITE'', pc_type = ''MANAGER''\<rparr>,
      \<lparr>pc_ident = ''PC-VEN-01'', pc_role = ''SATELLITE'', pc_type = ''SALES''\<rparr>,
      \<lparr>pc_ident = ''PC-VEN-02'', pc_role = ''SATELLITE'', pc_type = ''SALES''\<rparr>,
      \<lparr>pc_ident = ''PC-ADM'', pc_role = ''SATELLITE'', pc_type = ''ADMIN''\<rparr>,
      \<lparr>pc_ident = ''PC-FIN'', pc_role = ''SATELLITE'', pc_type = ''FINANCE''\<rparr>,
      \<lparr>pc_ident = ''PC-CAD'', pc_role = ''SATELLITE'', pc_type = ''REGISTER''\<rparr>,
      \<lparr>pc_ident = ''PC-RESERVA'', pc_role = ''SATELLITE'', pc_type = ''PDV''\<rparr>]"

text \<open>
  A row of \<^verbatim>\<open>SELECT id, name, sale_price, current_stock FROM products ORDER BY id\<close>.
  The prices are Python floats; they are modelled as exact reals, so the rounding of the
  float subtraction is not part of the model.
\<close>

record product_row =
  row_id :: string
  row_name :: string
  sale_price :: real
  current_stock :: real

text \<open>What \<^verbatim>\<open>runtime.log\<close> of a node is when the health check looks at it.\<close>

datatype log_file = No_Log_File | Log_Read_Raises string | Log_Content string

text \<open>
  What one node shows to the runner: whether \<^verbatim>\<open>giro.db\<close> exists, and what SQLite
  answers to each statement the runner sends (\<open>None\<close>: \<^verbatim>\<open>sqlite3\<close> raised). The
  statements are fixed, so each answer has the shape of its \<^verbatim>\<open>SELECT\<close>:
  \<^item> \<open>count_reply t\<close>: \<^verbatim>\<open>SELECT COUNT(*) as cnt FROM t\<close>, one row, its \<^verbatim>\<open>cnt\<close>;
  \<^item> \<open>network_settings_reply\<close>: \<^verbatim>\<open>SELECT key, value FROM settings WHERE key LIKE 'network.%'\<close>;
  \<^item> \<open>products_reply\<close>: the product rows.
\<close>

record sim_node =
  db_exists :: bool
  count_reply :: "string \<Rightarrow> nat option"
  network_settings_reply :: "(string \<times> string) list option"
  products_reply :: "product_row list option"
  runtime_log :: log_file

type_synonym sim = "string \<Rightarrow> sim_node"

subsection \<open>Database utilities\<close>

text \<open>
  \<^verbatim>\<open>db_query\<close>: the empty list when the database file does not exist, and when anything
  raises underneath. The SQL text is the selector of the answer.
\<close>

definition db_query :: "sim \<Rightarrow> string \<Rightarrow> (sim_node \<Rightarrow> 'r list option) \<Rightarrow> 'r list" where
  "db_query env pc query =
     (if \<not> db_exists (env pc) then []
      else (case query (env pc) of None \<Rightarrow> [] | Some rows \<Rightarrow> rows))"

definition count_query :: "string \<Rightarrow> sim_node \<Rightarrow> nat list option" where
  "count_query table nd = map_option (\<lambda>cnt. [cnt]) (count_reply nd table)"

definition db_count :: "sim \<Rightarrow> string \<Rightarrow> string \<Rightarrow> nat" where
  "db_count env pc table =
     (case db_query env pc (count_query table) of [] \<Rightarrow> 0 | cnt # _ \<Rightarrow> cnt)"

subsection \<open>Health check system\<close>

record HealthStatus =
  pc_id :: string
  timestamp :: string
  status :: string
  db_accessible :: bool
  employee_count :: nat
  product_count :: nat
  sale_count :: nat
  network_connected :: bool
  last_sync_time :: "string option"
  errors :: "string list"
  warnings :: "string list"

text \<open>An alert: the dict with keys \<^verbatim>\<open>time\<close>, \<^verbatim>\<open>pc_id\<close>, \<^verbatim>\<open>level\<close>, \<^verbatim>\<open>messages\<close>.\<close>

record alert =
  alert_time :: string
  alert_pc_id :: string
  alert_level :: string
  alert_messages :: "string list"

text \<open>
  \<^verbatim>\<open>HealthMonitor\<close>: \<open>statuses\<close> is a dict, \<open>history\<close> a \<^verbatim>\<open>defaultdict(list)\<close> (a total
  function with default \<open>[]\<close>), \<open>alerts\<close> a list.
\<close>

record HealthMonitor =
  statuses :: "(string \<times> HealthStatus) list"
  history :: "string \<Rightarrow> HealthStatus list"
  alerts :: "alert list"

definition HealthMonitor_init :: HealthMonitor where
  "HealthMonitor_init = \<lparr>statuses = [], history = (\<lambda>_. []), alerts = []\<rparr>"

text \<open>\<^verbatim>\<open>HealthStatus(pc_id=pc_id, timestamp=..., status="OK")\<close> with the dataclass defaults.\<close>

definition new_status :: "string \<Rightarrow> string \<Rightarrow> HealthStatus" where
  "new_status pc now =
     \<lparr>pc_id = pc, timestamp = now, status = ''OK'', db_accessible = True,
      employee_count = 0, product_count = 0, sale_count = 0, network_connected = True,
      last_sync_time = None, errors = [], warnings = []\<rparr>"

text \<open>The steps of the \<^verbatim>\<open>try\<close> block of \<^verbatim>\<open>check_pc\<close>, in the order of the source.\<close>

definition get_counts :: "sim \<Rightarrow> string \<Rightarrow> HealthStatus \<Rightarrow> HealthStatus" where
  "get_counts env pc s =
     s\<lparr>employee_count := db_count env pc ''employees'',
       product_count := db_count env pc ''products'',
       sale_count := db_count env pc ''sales''\<rparr>"

definition validate_minimums :: "HealthStatus \<Rightarrow> HealthStatus" where
  "validate_minimums s =
     (let s1 = (if employee_count s = 0
                then s\<lparr>errors := errors s @ [''No employees in database''], status := ''ERROR''\<rparr>
                else if employee_count s < 3
                then s\<lparr>warnings := warnings s @ [''Low employee count: '' @ str_nat (employee_count s)]\<rparr>
                else s)
      in if product_count s1 = 0
         then s1\<lparr>errors := errors s1 @ [''No products in database''], status := ''ERROR''\<rparr>
         else if product_count s1 < 10
         then s1\<lparr>warnings := warnings s1 @ [''Low product count: '' @ str_nat (product_count s1)]\<rparr>
         else s1)"

definition check_network_settings :: "sim \<Rightarrow> string \<Rightarrow> HealthStatus \<Rightarrow> HealthStatus" where
  "check_network_settings env pc s =
     (if db_query env pc network_settings_reply = []
      then s\<lparr>warnings := warnings s @ [''Missing network settings'']\<rparr>
      else s)"

definition check_runtime_log :: "string \<Rightarrow> string \<Rightarrow> HealthStatus \<Rightarrow> HealthStatus" where
  "check_runtime_log pc log_content s =
     (let s1 = (if py_in ''Conectado ao Master'' log_content
                   \<or> py_in ''Autenticado com sucesso'' log_content
                then s\<lparr>network_connected := True\<rparr>
                else if pc \<noteq> ''PC-PDV-01''
                then s\<lparr>network_connected := False,
                       warnings := warnings s @ [''No master connection in logs'']\<rparr>
                else s)
      in if py_in ''ERROR'' log_content \<or> py_in ''FATAL'' log_content
         then s1\<lparr>warnings := warnings s1 @ [''Errors found in runtime log'']\<rparr>
         else s1)"

definition determine_final_status :: "HealthStatus \<Rightarrow> HealthStatus" where
  "determine_final_status s =
     s\<lparr>status := (if errors s \<noteq> [] then ''ERROR''
                  else if warnings s \<noteq> [] then ''WARN'' else ''OK'')\<rparr>"

text \<open>
  The \<^verbatim>\<open>try\<close> block: the status as the block leaves it, and the message of the exception
  when one escapes. \<^verbatim>\<open>db_query\<close> catches everything, so the only statement of the block
  that can raise is \<^verbatim>\<open>log_file.read_text()\<close>; the status object then keeps what the
  earlier statements wrote into it.
\<close>

definition health_try_block :: "sim \<Rightarrow> string \<Rightarrow> HealthStatus \<Rightarrow> HealthStatus \<times> string option" where
  "health_try_block env pc s =
     (let s3 = check_network_settings env pc (validate_minimums (get_counts env pc s))
      in case runtime_log (env pc) of
           No_Log_File \<Rightarrow> (determine_final_status s3, None)
         | Log_Read_Raises e \<Rightarrow> (s3, Some e)
         | Log_Content log_content \<Rightarrow>
             (determine_final_status (check_runtime_log pc log_content s3), None))"

text \<open>The block under \<^verbatim>\<open>with self._lock\<close>.\<close>

definition record_status :: "HealthMonitor \<Rightarrow> string \<Rightarrow> HealthStatus \<Rightarrow> HealthMonitor" where
  "record_status mon pc s =
     mon\<lparr>statuses := AList.update pc s (statuses mon),
         history := (history mon)(pc := history mon pc @ [s]),
         alerts := (if errors s \<noteq> []
                    then alerts mon @ [\<lparr>alert_time = timestamp s, alert_pc_id = pc,
                                        alert_level = ''ERROR'', alert_messages = errors s\<rparr>]
                    else alerts mon)\<rparr>"

text \<open>
  \<^verbatim>\<open>HealthMonitor.check_pc\<close>. \<open>now\<close> is the reading of the clock. When the database
  file is missing the source returns before the locked block, so the monitor is returned
  as it was.
\<close>

definition check_pc :: "sim \<Rightarrow> string \<Rightarrow> HealthMonitor \<Rightarrow> string \<Rightarrow> HealthStatus \<times> HealthMonitor" where
  "check_pc env now mon pc =
     (let s = new_status pc now
      in if \<not> db_exists (env pc)
         then (s\<lparr>db_accessible := False,
                 errors := errors s @ [''Database file not found''],
                 status := ''ERROR''\<rparr>, mon)
         else (case health_try_block env pc s of
                 (s1, None) \<Rightarrow> (s1, record_status mon pc s1)
               | (s1, Some e) \<Rightarrow>
                   (let s2 = s1\<lparr>db_accessible := False,
                                errors := errors s1 @ [''Health check failed: '' @ e],
                                status := ''ERROR''\<rparr>
                    in (s2, record_status mon pc s2))))"

text \<open>\<^verbatim>\<open>check_all\<close>: every node of the roster in turn; the monitor is what it leaves.\<close>

definition check_all :: "sim \<Rightarrow> string \<Rightarrow> HealthMonitor \<Rightarrow> HealthMonitor" where
  "check_all env now mon = foldl (\<lambda>m pc. snd (check_pc env now m (pc_ident pc))) mon PC_CONFIG"

subsection \<open>Sync validator\<close>

text \<open>
  An entry of the list \<^verbatim>\<open>validate_products\<close> returns: the dict whose \<^verbatim>\<open>type\<close> is
  \<^verbatim>\<open>MISSING_PRODUCT\<close> (with \<^verbatim>\<open>pc_id\<close>, \<^verbatim>\<open>product_id\<close>, \<^verbatim>\<open>details\<close>) or
  \<^verbatim>\<open>PRICE_MISMATCH\<close> (with \<^verbatim>\<open>pc_id\<close>, \<^verbatim>\<open>product_id\<close>, \<^verbatim>\<open>master_price\<close>,
  \<^verbatim>\<open>local_price\<close>).
\<close>

datatype issue =
    MISSING_PRODUCT string string string
  | PRICE_MISMATCH string string real real

fun issue_pc_id :: "issue \<Rightarrow> string" where
  "issue_pc_id (MISSING_PRODUCT pc product details) = pc"
| "issue_pc_id (PRICE_MISMATCH pc product master_price local_price) = pc"

fun issue_product_id :: "issue \<Rightarrow> string" where
  "issue_product_id (MISSING_PRODUCT pc product details) = product"
| "issue_product_id (PRICE_MISMATCH pc product master_price local_price) = product"

record SyncValidator =
  last_check :: "string option"
  inconsistencies :: "issue list"

definition SyncValidator_init :: SyncValidator where
  "SyncValidator_init = \<lparr>last_check = None, inconsistencies = []\<rparr>"

text \<open>The first inner loop of \<^verbatim>\<open>validate_products\<close>: the products missing on \<open>pc\<close>.\<close>

definition missing_products ::
  "string \<Rightarrow> (string \<times> product_row) list \<Rightarrow> (string \<times> product_row) list \<Rightarrow> issue list" where
  "missing_products pc master_dict local_dict =
     concat (map (\<lambda>(prod_id, master_prod).
        if map_of local_dict prod_id = None
        then [MISSING_PRODUCT pc prod_id
                (''Product '' @ row_name master_prod @ '' missing on '' @ pc)]
        else []) master_dict)"

text \<open>The second inner loop: the price differences above \<open>0.01\<close>.\<close>

definition price_mismatches ::
  "string \<Rightarrow> (string \<times> product_row) list \<Rightarrow> (string \<times> product_row) list \<Rightarrow> issue list" where
  "price_mismatches pc master_dict local_dict =
     concat (map (\<lambda>(prod_id, master_prod).
        case map_of local_dict prod_id of
          None \<Rightarrow> []
        | Some local_prod \<Rightarrow>
            if \<bar>sale_price master_prod - sale_price local_prod\<bar> > 1 / 100
            then [PRICE_MISMATCH pc prod_id (sale_price master_prod) (sale_price local_prod)]
            else []) master_dict)"

text \<open>The body of the loop over \<^verbatim>\<open>PC_CONFIG\<close> for one entry.\<close>

definition pc_issues :: "sim \<Rightarrow> (string \<times> product_row) list \<Rightarrow> string \<Rightarrow> issue list" where
  "pc_issues env master_dict pc =
     (if pc = ''PC-PDV-01'' then []
      else (let local_dict = dict_of row_id (db_query env pc products_reply)
            in missing_products pc master_dict local_dict
               @ price_mismatches pc master_dict local_dict))"

text \<open>
  \<^verbatim>\<open>SyncValidator.validate_products\<close>: the issues it returns and the validator it
  leaves. \<open>now\<close> is \<^verbatim>\<open>datetime.now()\<close>.
\<close>

definition validate_products :: "sim \<Rightarrow> string \<Rightarrow> SyncValidator \<Rightarrow> issue list \<times> SyncValidator" where
  "validate_products env now v =
     (let master_dict = dict_of row_id (db_query env ''PC-PDV-01'' products_reply);
          issues = concat (map (\<lambda>pc. pc_issues env master_dict (pc_ident pc)) PC_CONFIG)
      in (issues, v\<lparr>inconsistencies := issues, last_check := Some now\<rparr>))"

subsection \<open>Continuous test runner\<close>

text \<open>
  The fields of \<^verbatim>\<open>ContinuousTestRunner\<close> that \<^verbatim>\<open>run_cycle\<close> changes. Its log lines and
  the summary it returns are left out: they change neither the monitor nor the validator.
\<close>

record ContinuousTestRunner =
  cycle :: nat
  monitor :: HealthMonitor
  validator :: SyncValidator

definition run_cycle :: "sim \<Rightarrow> string \<Rightarrow> ContinuousTestRunner \<Rightarrow> ContinuousTestRunner" where
  "run_cycle env now r =
     r\<lparr>cycle := cycle r + 1,
       monitor := check_all env now (monitor r),
       validator := snd (validate_products env now (validator r))\<rparr>"

section \<open>multi\_pc\_test\_harness.py\<close>

subsection \<open>Test result tracking\<close>

datatype TestStatus = PENDING | RUNNING | PASSED | FAILED | SKIPPED | ERROR

text \<open>
  \<^verbatim>\<open>TestResult\<close>. The fields \<^verbatim>\<open>pc_id\<close>, \<^verbatim>\<open>status\<close> and \<^verbatim>\<open>context\<close> are named
  \<open>test_pc_id\<close>, \<open>test_status\<close> and \<open>test_context\<close> here.
\<close>

record TestResult =
  test_id :: string
  test_name :: string
  test_pc_id :: string
  category :: string
  test_status :: TestStatus
  duration_ms :: real
  assertions :: nat
  failures :: "string list"
  error :: "string option"
  test_context :: "(string \<times> string) list"

text \<open>\<^verbatim>\<open>TestRegistry\<close>: the dict \<^verbatim>\<open>_results\<close>, keyed by test id, and \<^verbatim>\<open>_start_time\<close>.\<close>

record TestRegistry =
  results :: "(string \<times> TestResult) list"
  start_time :: real

definition register :: "TestRegistry \<Rightarrow> TestResult \<Rightarrow> TestRegistry" where
  "register reg result = reg\<lparr>results := AList.update (test_id result) result (results reg)\<rparr>"


text \<open>The dict \<^verbatim>\<open>get_summary\<close> returns.\<close>

record summary =
  total :: nat
  passed :: nat
  failed :: nat
  summary_errors :: nat
  pass_rate :: string
  duration_s :: real
  summary_results :: "TestResult list"



subsection \<open>Running one test\<close>

text \<open>
  What a call \<^verbatim>\<open>test_fn(pc_id)\<close> does: it returns a value (a list of strings, or
  anything else, \<^verbatim>\<open>None\<close> included), raises \<^verbatim>\<open>AssertionError\<close>, raises another
  \<^verbatim>\<open>Exception\<close>, or never returns. The strings are \<^verbatim>\<open>str(e)\<close>.
\<close>

datatype py_value = Py_List "string list" | Py_Other

datatype check_outcome =
    Returns py_value
  | Raises_AssertionError string
  | Raises_Exception string
  | Never_Returns

text \<open>
  The \<^verbatim>\<open>try\<close> statement of \<^verbatim>\<open>run_test\<close>: status, failures and error message, for a
  call that comes back.
\<close>

fun classify :: "check_outcome \<Rightarrow> (TestStatus \<times> string list \<times> string option) option" where
  "classify (Returns (Py_List result)) =
     (if result \<noteq> [] then Some (FAILED, result, None) else Some (PASSED, [], None))"
| "classify (Returns Py_Other) = Some (PASSED, [], None)"
| "classify (Raises_AssertionError e) = Some (FAILED, [e], None)"
| "classify (Raises_Exception e) = Some (ERROR, [], Some e)"
| "classify Never_Returns = None"

text \<open>
  \<^verbatim>\<open>run_test\<close>. \<open>uuid8\<close> is \<^verbatim>\<open>uuid.uuid4().hex[:8]\<close>, \<open>start\<close> and \<open>finish\<close> are the two
  readings of \<^verbatim>\<open>time.time()\<close>. \<open>None\<close>: the call of \<open>test_fn\<close> never returns, and neither
  does \<^verbatim>\<open>run_test\<close>. The calls of the logger are left out.
\<close>

definition run_test ::
  "TestRegistry \<Rightarrow> string \<Rightarrow> string \<Rightarrow> string \<Rightarrow> (string \<Rightarrow> check_outcome)
   \<Rightarrow> string \<Rightarrow> real \<Rightarrow> real \<Rightarrow> (TestResult \<times> TestRegistry) option" where
  "run_test reg pc name cat test_fn uuid8 start finish =
     (case classify (test_fn pc) of
        None \<Rightarrow> None
      | Some (st, fs, error_msg) \<Rightarrow>
          (let result = \<lparr>test_id = pc @ ''_'' @ name @ ''_'' @ uuid8,
                         test_name = name, test_pc_id = pc, category = cat,
                         test_status = st, duration_ms = (finish - start) * 1000,
                         assertions = 0, failures = fs, error = error_msg,
                         test_context = []\<rparr>
           in Some (result, register reg result)))"

subsection \<open>Sync test: stock consistency\<close>

text \<open>
  What one node shows to the harness. Here \<^verbatim>\<open>db_query\<close> lets every exception through,
  so an answer is the message of the exception (\<open>Inl\<close>) or the rows (\<open>Inr\<close>):
  \<^item> \<open>stock_count_reply\<close>: \<^verbatim>\<open>SELECT COUNT(*) as cnt FROM products WHERE current_stock > 0\<close>,
    one row, its \<^verbatim>\<open>cnt\<close>;
  \<^item> \<open>seed_ids_reply\<close>: \<^verbatim>\<open>SELECT id FROM products WHERE id LIKE 'prod-%' ORDER BY id\<close>,
    the \<^verbatim>\<open>id\<close> of each row.
\<close>

record harness_node =
  harness_db_exists :: bool
  stock_count_reply :: "string + nat list"
  seed_ids_reply :: "string + string list"

type_synonym harness_sim = "string \<Rightarrow> harness_node"

text \<open>
  \<^verbatim>\<open>db_connect\<close> raises \<^verbatim>\<open>FileNotFoundError\<close> when the file is missing; \<^verbatim>\<open>db_query\<close>
  of the harness does not catch it.
\<close>

definition harness_db_query ::
  "harness_sim \<Rightarrow> string \<Rightarrow> (harness_node \<Rightarrow> string + 'r list) \<Rightarrow> string + 'r list" where
  "harness_db_query env pc query =
     (if \<not> harness_db_exists (env pc)
      then Inl (''Database not found: /tmp/giro-sim/'' @ pc @ ''/data/GIRO/giro.db'')
      else query (env pc))"

text \<open>An entry the logger appends: level, category, node, message and keyword context.\<close>

record log_entry =
  log_level :: string
  log_category :: string
  log_pc_id :: string
  log_message :: string
  log_context :: "(string \<times> string) list"

text \<open>The check mark of the messages, as its three UTF-8 bytes.\<close>

definition check_mark :: string where
  "check_mark = [char_of (226::nat), char_of (156::nat), char_of (147::nat)]"

text \<open>
  \<^verbatim>\<open>test_stock_consistency\<close>: what the call does, and the entries it logs. The two Python
  sets are lists without duplicates; only their sizes are used.
\<close>

definition test_stock_consistency :: "harness_sim \<Rightarrow> string \<Rightarrow> check_outcome \<times> log_entry list" where
  "test_stock_consistency env pc =
     (if pc = ''PC-PDV-01''
      then (case harness_db_query env pc stock_count_reply of
              Inl e \<Rightarrow> (Raises_Exception e, [])
            | Inr [] \<Rightarrow> (Raises_Exception ''list index out of range'', [])
            | Inr (cnt # _) \<Rightarrow>
                if cnt < 5
                then (Returns (Py_List [''Insufficient products with stock'']), [])
                else (Returns (Py_List []),
                      [\<lparr>log_level = ''INFO'', log_category = ''SYNC'', log_pc_id = pc,
                        log_message = check_mark @ '' Master stock OK'',
                        log_context = [(''products_with_stock'', str_nat cnt)]\<rparr>]))
      else (case harness_db_query env ''PC-PDV-01'' seed_ids_reply of
              Inl e \<Rightarrow> (Raises_Exception e, [])
            | Inr master_products \<Rightarrow>
               (case harness_db_query env pc seed_ids_reply of
                  Inl e \<Rightarrow> (Raises_Exception e, [])
                | Inr local_products \<Rightarrow>
                   (let master_ids = remdups master_products;
                        local_ids = remdups local_products;
                        missing = filter (\<lambda>i. i \<notin> set local_ids) master_ids;
                        fs = (if missing \<noteq> [] \<and> length missing > 5
                              then [''Missing '' @ str_nat (length missing)
                                    @ '' seed products on '' @ pc]
                              else []);
                        dbg = (if missing \<noteq> [] \<and> \<not> length missing > 5
                               then [\<lparr>log_level = ''DEBUG'', log_category = ''SYNC'',
                                      log_pc_id = pc,
                                      log_message = ''Minor sync difference'',
                                      log_context = [(''missing'', str_nat (length missing))]\<rparr>]
                               else []);
                        inf = (if fs = []
                               then [\<lparr>log_level = ''INFO'', log_category = ''SYNC'',
                                      log_pc_id = pc,
                                      log_message = check_mark @ '' Stock consistency OK'',
                                      log_context = [(''seed_products'', str_nat (length local_ids))]\<rparr>]
                               else [])
                    in (Returns (Py_List fs), dbg @ inf)))))"

subsection \<open>Test orchestrator\<close>

text \<open>
  What a call of \<^verbatim>\<open>run_test\<close> draws from outside: the identifier suffix and the two
  clock readings. \<open>samples pc i\<close> is the draw of the \<open>i\<close>-th test of the batch of \<open>pc\<close>.
\<close>

record sample =
  uuid8 :: string
  t_start :: real
  t_finish :: real







section \<open>Concrete nodes\<close>

text \<open>Nodes and simulations at which the theorems below are evaluated.\<close>

definition product :: "string \<Rightarrow> real \<Rightarrow> product_row" where
  "product i price = \<lparr>row_id = i, row_name = i, sale_price = price, current_stock = 1\<rparr>"

definition absent_node :: sim_node where
  "absent_node =
     \<lparr>db_exists = False, count_reply = (\<lambda>_. None), network_settings_reply = None,
      products_reply = None, runtime_log = No_Log_File\<rparr>"

definition healthy_node :: "product_row list \<Rightarrow> sim_node" where
  "healthy_node rows =
     \<lparr>db_exists = True, count_reply = (\<lambda>_. Some 20),
      network_settings_reply = Some [(''network.role'', ''SATELLITE'')],
      products_reply = Some rows,
      runtime_log = Log_Content ''Autenticado com sucesso''\<rparr>"

definition empty_node :: sim_node where
  "empty_node = (healthy_node [])\<lparr>count_reply := (\<lambda>_. Some 0)\<rparr>"

definition absent_sim :: sim where
  "absent_sim = (\<lambda>pc. absent_node)"

definition empty_sim :: sim where
  "empty_sim = (\<lambda>pc. empty_node)"

definition scenario_sim :: "product_row list \<Rightarrow> product_row list \<Rightarrow> sim" where
  "scenario_sim master_rows peer_rows =
     (\<lambda>pc. healthy_node (if pc = ''PC-PDV-01'' then master_rows else peer_rows))"

definition seed_sim :: "string list \<Rightarrow> string list \<Rightarrow> harness_sim" where
  "seed_sim master_ids peer_ids =
     (\<lambda>pc. \<lparr>harness_db_exists = True, stock_count_reply = Inr [20],
            seed_ids_reply = Inr (if pc = ''PC-PDV-01'' then master_ids else peer_ids)\<rparr>)"

definition ContinuousTestRunner_init :: ContinuousTestRunner where
  "ContinuousTestRunner_init =
     \<lparr>cycle = 0, monitor = HealthMonitor_init, validator = SyncValidator_init\<rparr>"

definition TestRegistry_init :: TestRegistry where
  "TestRegistry_init = \<lparr>results = [], start_time = 0\<rparr>"





section \<open>Properties of the health check\<close>

lemma determine_final_status_fields [simp]:
  "errors (determine_final_status s) = errors s"
  "warnings (determine_final_status s) = warnings s"
  "status (determine_final_status s) =
     (if errors s \<noteq> [] then ''ERROR'' else if warnings s \<noteq> [] then ''WARN'' else ''OK'')"
  by (simp_all add: determine_final_status_def)

lemma timestamp_steps [simp]:
  "timestamp (determine_final_status s) = timestamp s"
  "timestamp (check_runtime_log pc c s) = timestamp s"
  "timestamp (check_network_settings env pc s) = timestamp s"
  "timestamp (validate_minimums s) = timestamp s"
  "timestamp (get_counts env pc s) = timestamp s"
  "timestamp (new_status pc now) = now"
  by (simp_all add: determine_final_status_def check_runtime_log_def check_network_settings_def
      validate_minimums_def get_counts_def new_status_def Let_def)

text \<open>
  Claim C1. Whatever the node shows and whatever path \<^const>\<open>check_pc\<close> takes (database
  file missing, the \<^verbatim>\<open>try\<close> block running to its end, an exception inside it), the
  status it returns has level \<^verbatim>\<open>ERROR\<close> exactly when its list of errors is not empty,
  level \<^verbatim>\<open>WARN\<close> exactly when it has no error and some warning, and level \<^verbatim>\<open>OK\<close>
  exactly when both lists are empty.
\<close>

theorem check_pc_level_invariant:
  fixes env now mon pc
  defines "s \<equiv> fst (check_pc env now mon pc)"
  shows "(status s = ''ERROR'' \<longleftrightarrow> errors s \<noteq> [])
       \<and> (status s = ''WARN'' \<longleftrightarrow> errors s = [] \<and> warnings s \<noteq> [])
       \<and> (status s = ''OK'' \<longleftrightarrow> errors s = [] \<and> warnings s = [])"
  unfolding s_def
  by (simp add: check_pc_def health_try_block_def Let_def new_status_def
      split: log_file.splits)

text \<open>
  Claim C4. For a node whose database file does not exist, \<^const>\<open>db_query\<close> gives the
  empty list and \<^const>\<open>db_count\<close> gives \<open>0\<close> (there is no error value to return), and
  \<^const>\<open>check_pc\<close> returns the status with \<open>db_accessible = False\<close>, the single error
  \<^verbatim>\<open>Database file not found\<close>, no warning and the three counts at their default \<open>0\<close>,
  whatever the rest of the node is: no later check has run.
\<close>

theorem missing_dataset_health_status:
  assumes "\<not> db_exists (env pc)"
  shows "db_query env pc query = []
       \<and> db_count env pc table = 0
       \<and> check_pc env now mon pc =
           (\<lparr>pc_id = pc, timestamp = now, status = ''ERROR'', db_accessible = False,
             employee_count = 0, product_count = 0, sale_count = 0,
             network_connected = True, last_sync_time = None,
             errors = [''Database file not found''], warnings = []\<rparr>, mon)"
  using assms by (simp add: db_query_def db_count_def check_pc_def new_status_def)

theorem missing_dataset_health_status_witness:
  "\<not> db_exists (absent_sim ''PC-GER'')
   \<and> db_query absent_sim ''PC-GER'' products_reply = []
   \<and> db_count absent_sim ''PC-GER'' ''employees'' = 0
   \<and> check_pc absent_sim ''2026-01-01T00:00:00'' HealthMonitor_init ''PC-GER'' =
        (\<lparr>pc_id = ''PC-GER'', timestamp = ''2026-01-01T00:00:00'', status = ''ERROR'',
          db_accessible = False, employee_count = 0, product_count = 0, sale_count = 0,
          network_connected = True, last_sync_time = None,
          errors = [''Database file not found''], warnings = []\<rparr>, HealthMonitor_init)"
proof -
  have h: "\<not> db_exists (absent_sim ''PC-GER'')"
    by (simp add: absent_sim_def absent_node_def)
  show ?thesis
    using h missing_dataset_health_status [where env = absent_sim and pc = "''PC-GER''"
        and query = products_reply and table = "''employees''"
        and now = "''2026-01-01T00:00:00''" and mon = HealthMonitor_init]
    by simp
qed

lemma check_pc_history_present:
  assumes "db_exists (env pc)"
  shows "history (snd (check_pc env now mon pc)) pc = history mon pc @ [fst (check_pc env now mon pc)]"
  using assms
  by (simp add: check_pc_def record_status_def Let_def split: prod.splits option.splits)

lemma check_pc_history_other:
  assumes "pc' \<noteq> pc"
  shows "history (snd (check_pc env now mon pc)) pc' = history mon pc'"
  using assms
  by (simp add: check_pc_def record_status_def Let_def split: prod.splits option.splits)

text \<open>
  Claim C8, at the input where the code departs from it. For a node whose database file
  does not exist, \<^const>\<open>check_pc\<close> builds a status with an error and returns it, but
  leaves the history and the current statuses of the monitor as they were: the cycle adds
  no entry to the history of the node.
\<close>

theorem check_pc_missing_db_skips_history:
  assumes "\<not> db_exists (env pc)"
  shows "history (snd (check_pc env now mon pc)) = history mon
       \<and> statuses (snd (check_pc env now mon pc)) = statuses mon
       \<and> errors (fst (check_pc env now mon pc)) \<noteq> []"
  using assms by (simp add: check_pc_def new_status_def)

theorem check_pc_missing_db_skips_history_witness:
  "\<not> db_exists (absent_sim ''PC-GER'')
   \<and> history (snd (check_pc absent_sim ''t1'' HealthMonitor_init ''PC-GER'')) ''PC-GER'' = []
   \<and> statuses (snd (check_pc absent_sim ''t1'' HealthMonitor_init ''PC-GER'')) = []
   \<and> errors (fst (check_pc absent_sim ''t1'' HealthMonitor_init ''PC-GER'')) \<noteq> []"
proof -
  have h: "\<not> db_exists (absent_sim ''PC-GER'')"
    by (simp add: absent_sim_def absent_node_def)
  show ?thesis
    using h check_pc_missing_db_skips_history [where env = absent_sim and pc = "''PC-GER''"
        and now = "''t1''" and mon = HealthMonitor_init]
    by (simp add: HealthMonitor_init_def)
qed

section \<open>Properties of the sync validator\<close>

lemma filter_concat_map_keyed:
  assumes "distinct (map f xs)"
    and "\<And>y i. y \<in> set xs \<Longrightarrow> i \<in> set (G y) \<Longrightarrow> g i = f y"
  shows "filter (\<lambda>i. g i = x) (concat (map G xs)) = concat (map G (filter (\<lambda>y. f y = x) xs))"
  using assms
proof (induction xs)
  case Nil
  show ?case by simp
next
  case (Cons y ys)
  have own: "filter (\<lambda>i. g i = x) (G y) = (if f y = x then G y else [])"
    using Cons.prems(2) [of y] by (auto simp: filter_empty_conv intro: filter_True)
  have "filter (\<lambda>i. g i = x) (concat (map G ys)) = concat (map G (filter (\<lambda>y. f y = x) ys))"
    using Cons.prems by (intro Cons.IH) auto
  with own show ?case by simp
qed

lemma filter_key_distinct:
  assumes "distinct (map fst kvs)"
  shows "filter (\<lambda>kv. fst kv = x) kvs = (case map_of kvs x of None \<Rightarrow> [] | Some v \<Rightarrow> [(x, v)])"
  using assms
proof (induction kvs)
  case Nil
  show ?case by simp
next
  case (Cons kv kvs)
  obtain k v where kv: "kv = (k, v)" by (cases kv)
  show ?case
  proof (cases "k = x")
    case True
    with Cons.prems kv have "x \<notin> fst ` set kvs" by auto
    then have "filter (\<lambda>kv. fst kv = x) kvs = []"
      by (auto simp: filter_empty_conv)
    with True kv show ?thesis by simp
  next
    case False
    with Cons kv show ?thesis by simp
  qed
qed

lemma distinct_dict_of: "distinct (map fst (dict_of key rows))"
proof -
  have "distinct (map fst d) \<Longrightarrow> distinct (map fst (foldl (\<lambda>d p. AList.update (key p) p d) d rows))" for d
    by (induction rows arbitrary: d) (simp_all add: distinct_update)
  then show ?thesis by (simp add: dict_of_def)
qed

lemma issue_ids_missing:
  "i \<in> set (missing_products pc md ld) \<Longrightarrow> issue_pc_id i = pc"
  by (auto simp: missing_products_def split: if_splits)

lemma issue_ids_mismatch:
  "i \<in> set (price_mismatches pc md ld) \<Longrightarrow> issue_pc_id i = pc"
  by (auto simp: price_mismatches_def split: if_splits option.splits)

lemma issue_ids_pc_issues: "i \<in> set (pc_issues env md pc) \<Longrightarrow> issue_pc_id i = pc"
  by (auto simp: pc_issues_def Let_def issue_ids_missing issue_ids_mismatch split: if_splits)

lemma distinct_PC_CONFIG: "distinct (map pc_ident PC_CONFIG)"
  by (simp add: PC_CONFIG_def)

lemma filter_concat_map_by_key:
  assumes "distinct (map f xs)"
    and "\<And>k i. i \<in> set (H k) \<Longrightarrow> g i = k"
  shows "filter (\<lambda>i. g i = x) (concat (map (\<lambda>y. H (f y)) xs)) =
           (if x \<in> set (map f xs) then H x else [])"
  using assms(1)
proof (induction xs)
  case Nil
  show ?case by simp
next
  case (Cons y ys)
  have own: "filter (\<lambda>i. g i = x) (H (f y)) = (if f y = x then H x else [])"
    using assms(2) [of _ "f y"] by (auto simp: filter_empty_conv intro: filter_True)
  have rest: "filter (\<lambda>i. g i = x) (concat (map (\<lambda>y. H (f y)) ys)) =
           (if x \<in> set (map f ys) then H x else [])"
    using Cons by simp
  show ?case
  proof (cases "f y = x")
    case True
    with Cons.prems have "x \<notin> set (map f ys)" by auto
    with True own rest show ?thesis by simp
  next
    case False
    with own rest show ?thesis by simp
  qed
qed

lemma issues_of_pc:
  "filter (\<lambda>i. issue_pc_id i = pc) (fst (validate_products env now v)) =
     (if pc \<in> set (map pc_ident PC_CONFIG)
      then pc_issues env (dict_of row_id (db_query env ''PC-PDV-01'' products_reply)) pc
      else [])"
proof -
  let ?md = "dict_of row_id (db_query env ''PC-PDV-01'' products_reply)"
  have "filter (\<lambda>i. issue_pc_id i = pc) (concat (map (\<lambda>p. pc_issues env ?md (pc_ident p)) PC_CONFIG))
        = (if pc \<in> set (map pc_ident PC_CONFIG) then pc_issues env ?md pc else [])"
    by (rule filter_concat_map_by_key [OF distinct_PC_CONFIG]) (rule issue_ids_pc_issues)
  then show ?thesis by (simp only: validate_products_def Let_def fst_conv)
qed

lemma missing_of_product:
  assumes "distinct (map fst md)"
  shows "filter (\<lambda>i. issue_product_id i = x) (missing_products pc md ld) =
     (case map_of md x of
        None \<Rightarrow> []
      | Some mp \<Rightarrow> if map_of ld x = None
                   then [MISSING_PRODUCT pc x (''Product '' @ row_name mp @ '' missing on '' @ pc)]
                   else [])"
proof -
  let ?G = "\<lambda>(prod_id, master_prod).
        if map_of ld prod_id = None
        then [MISSING_PRODUCT pc prod_id (''Product '' @ row_name master_prod @ '' missing on '' @ pc)]
        else []"
  have "filter (\<lambda>i. issue_product_id i = x) (concat (map ?G md))
        = concat (map ?G (filter (\<lambda>kv. fst kv = x) md))"
    by (rule filter_concat_map_keyed [OF assms]) (auto split: if_splits)
  then show ?thesis
    by (simp add: missing_products_def filter_key_distinct [OF assms] split: option.splits)
qed

lemma mismatch_of_product:
  assumes "distinct (map fst md)"
  shows "filter (\<lambda>i. issue_product_id i = x) (price_mismatches pc md ld) =
     (case map_of md x of
        None \<Rightarrow> []
      | Some mp \<Rightarrow>
         (case map_of ld x of
            None \<Rightarrow> []
          | Some lp \<Rightarrow> if \<bar>sale_price mp - sale_price lp\<bar> > 1 / 100
                       then [PRICE_MISMATCH pc x (sale_price mp) (sale_price lp)]
                       else []))"
proof -
  define G where "G = (\<lambda>kv :: string \<times> product_row.
        case map_of ld (fst kv) of
          None \<Rightarrow> []
        | Some local_prod \<Rightarrow>
            if \<bar>sale_price (snd kv) - sale_price local_prod\<bar> > 1 / 100
            then [PRICE_MISMATCH pc (fst kv) (sale_price (snd kv)) (sale_price local_prod)]
            else [])"
  have pm: "price_mismatches pc md ld = concat (map G md)"
    by (simp add: price_mismatches_def G_def split_def)
  have key: "issue_product_id i = fst y" if "i \<in> set (G y)" for y i
  proof (cases "map_of ld (fst y)")
    case None
    with that show ?thesis by (simp add: G_def)
  next
    case (Some lp)
    with that show ?thesis by (cases "\<bar>sale_price (snd y) - sale_price lp\<bar> > 1 / 100") (simp_all add: G_def)
  qed
  have "filter (\<lambda>i. issue_product_id i = x) (concat (map G md))
        = concat (map G (filter (\<lambda>kv. fst kv = x) md))"
    by (rule filter_concat_map_keyed [OF assms]) (rule key)
  also have "\<dots> = (case map_of md x of None \<Rightarrow> [] | Some mp \<Rightarrow> G (x, mp))"
    by (simp add: filter_key_distinct [OF assms] split: option.splits)
  finally show ?thesis
    unfolding pm by (simp add: G_def split: option.splits)
qed

lemma issues_of_entity:
  fixes env pc x
  defines "md \<equiv> dict_of row_id (db_query env ''PC-PDV-01'' products_reply)"
    and "ld \<equiv> dict_of row_id (db_query env pc products_reply)"
  shows "filter (\<lambda>i. issue_pc_id i = pc \<and> issue_product_id i = x) (fst (validate_products env now v)) =
     (if pc \<in> set (map pc_ident PC_CONFIG) \<and> pc \<noteq> ''PC-PDV-01''
      then (case map_of md x of
              None \<Rightarrow> []
            | Some mp \<Rightarrow>
               (case map_of ld x of
                  None \<Rightarrow> [MISSING_PRODUCT pc x (''Product '' @ row_name mp @ '' missing on '' @ pc)]
                | Some lp \<Rightarrow> if \<bar>sale_price mp - sale_price lp\<bar> > 1 / 100
                             then [PRICE_MISMATCH pc x (sale_price mp) (sale_price lp)]
                             else []))
      else [])"
proof -
  have d: "distinct (map fst md)"
    unfolding md_def by (rule distinct_dict_of)
  have split_filter: "filter (\<lambda>i. issue_pc_id i = pc \<and> issue_product_id i = x) is
        = filter (\<lambda>i. issue_product_id i = x) (filter (\<lambda>i. issue_pc_id i = pc) is)" for "is"
    by (simp add: conj_commute)
  have own: "filter (\<lambda>i. issue_pc_id i = pc) (fst (validate_products env now v))
        = (if pc \<in> set (map pc_ident PC_CONFIG) then pc_issues env md pc else [])"
    unfolding md_def by (rule issues_of_pc)
  show ?thesis
  proof (cases "pc \<in> set (map pc_ident PC_CONFIG) \<and> pc \<noteq> ''PC-PDV-01''")
    case True
    then have "pc_issues env md pc = missing_products pc md ld @ price_mismatches pc md ld"
      by (simp add: pc_issues_def ld_def Let_def)
    with True show ?thesis
      unfolding split_filter own
      by (auto simp: missing_of_product [OF d] mismatch_of_product [OF d] split: option.splits)
  next
    case False
    then have "(if pc \<in> set (map pc_ident PC_CONFIG) then pc_issues env md pc else []) = []"
      by (auto simp: pc_issues_def)
    then have lhs: "filter (\<lambda>i. issue_pc_id i = pc \<and> issue_product_id i = x)
        (fst (validate_products env now v)) = []"
      unfolding split_filter own by simp
    show ?thesis
      by (simp only: lhs if_not_P [OF False])
  qed
qed




lemma length_missing_ids:
  "length (filter (\<lambda>i. i \<notin> set (remdups l)) (remdups m)) = card (set m - set l)"
proof -
  have "distinct (filter (\<lambda>i. i \<notin> set (remdups l)) (remdups m))" by simp
  then have "length (filter (\<lambda>i. i \<notin> set (remdups l)) (remdups m))
             = card (set (filter (\<lambda>i. i \<notin> set (remdups l)) (remdups m)))"
    by (rule distinct_card [symmetric])
  also have "set (filter (\<lambda>i. i \<notin> set (remdups l)) (remdups m)) = set m - set l"
    by auto
  finally show ?thesis .
qed

text \<open>
  Claim C6, as amended. Let \<open>pc\<close> be a node of the roster other than the master.
  \<^const>\<open>validate_products\<close> has no tolerance: every product of the master that \<open>pc\<close>
  lacks gives one \<^const>\<open>MISSING_PRODUCT\<close> finding. The tolerance of five is in
  \<^const>\<open>test_stock_consistency\<close>: when both databases answer, with \<open>n\<close> seed ids of the
  master absent from \<open>pc\<close>, the test returns the single failure
  \<^verbatim>\<open>Missing n seed products on pc\<close> when \<open>n > 5\<close> and no failure otherwise, and its only
  entry at level \<^verbatim>\<open>DEBUG\<close> is \<^verbatim>\<open>Minor sync difference\<close>, logged when \<open>0 < n \<le> 5\<close>.
\<close>

theorem missing_entity_tolerance:
  fixes env pc x henv m l
  defines "master_dict \<equiv> dict_of row_id (db_query env ''PC-PDV-01'' products_reply)"
    and "local_dict \<equiv> dict_of row_id (db_query env pc products_reply)"
    and "n \<equiv> card (set m - set l)"
  assumes "pc \<in> set (map pc_ident PC_CONFIG)" and "pc \<noteq> ''PC-PDV-01''"
  shows "(map_of master_dict x = Some master_prod \<and> map_of local_dict x = None
          \<longrightarrow> filter (\<lambda>i. issue_pc_id i = pc \<and> issue_product_id i = x)
                  (fst (validate_products env now v)) =
                [MISSING_PRODUCT pc x (''Product '' @ row_name master_prod @ '' missing on '' @ pc)])
       \<and> (harness_db_exists (henv ''PC-PDV-01'') \<and> harness_db_exists (henv pc)
          \<and> seed_ids_reply (henv ''PC-PDV-01'') = Inr m \<and> seed_ids_reply (henv pc) = Inr l
          \<longrightarrow> fst (test_stock_consistency henv pc) =
                Returns (Py_List (if n > 5
                                  then [''Missing '' @ str_nat n @ '' seed products on '' @ pc]
                                  else []))
              \<and> filter (\<lambda>e. log_level e = ''DEBUG'') (snd (test_stock_consistency henv pc)) =
                  (if 0 < n \<and> n \<le> 5
                   then [\<lparr>log_level = ''DEBUG'', log_category = ''SYNC'', log_pc_id = pc,
                          log_message = ''Minor sync difference'',
                          log_context = [(''missing'', str_nat n)]\<rparr>]
                   else []))"
proof (intro conjI impI)
  assume "map_of master_dict x = Some master_prod \<and> map_of local_dict x = None"
  then show "filter (\<lambda>i. issue_pc_id i = pc \<and> issue_product_id i = x)
                  (fst (validate_products env now v)) =
                [MISSING_PRODUCT pc x (''Product '' @ row_name master_prod @ '' missing on '' @ pc)]"
    using assms(4,5) unfolding master_dict_def local_dict_def
    by (simp add: issues_of_entity)
next
  assume h: "harness_db_exists (henv ''PC-PDV-01'') \<and> harness_db_exists (henv pc)
          \<and> seed_ids_reply (henv ''PC-PDV-01'') = Inr m \<and> seed_ids_reply (henv pc) = Inr l"
  have len: "length (filter (\<lambda>i. i \<notin> set l) (remdups m)) = n"
    using length_missing_ids [of l m] by (simp add: n_def)
  have emp: "filter (\<lambda>i. i \<notin> set l) (remdups m) = [] \<longleftrightarrow> n = 0"
    using len by auto
  show "fst (test_stock_consistency henv pc) =
                Returns (Py_List (if n > 5
                                  then [''Missing '' @ str_nat n @ '' seed products on '' @ pc]
                                  else []))"
    using h assms(5)
    by (simp add: test_stock_consistency_def harness_db_query_def Let_def len emp)
  show "filter (\<lambda>e. log_level e = ''DEBUG'') (snd (test_stock_consistency henv pc)) =
                  (if 0 < n \<and> n \<le> 5
                   then [\<lparr>log_level = ''DEBUG'', log_category = ''SYNC'', log_pc_id = pc,
                          log_message = ''Minor sync difference'',
                          log_context = [(''missing'', str_nat n)]\<rparr>]
                   else [])"
    using h assms(5)
    by (auto simp: test_stock_consistency_def harness_db_query_def Let_def len emp)
qed


lemma PC_ESTQ_in_roster: "''PC-ESTQ'' \<in> set (map pc_ident PC_CONFIG)"
  by (simp add: PC_CONFIG_def)

lemma db_query_scenario_sim:
  "db_query (scenario_sim master_rows peer_rows) pc products_reply =
     (if pc = ''PC-PDV-01'' then master_rows else peer_rows)"
  by (simp add: db_query_def scenario_sim_def healthy_node_def)

lemma scenario_sim_fields:
  "db_exists (scenario_sim master_rows peer_rows pc)"
  "products_reply (scenario_sim master_rows peer_rows pc) =
     Some (if pc = ''PC-PDV-01'' then master_rows else peer_rows)"
  by (simp_all add: scenario_sim_def healthy_node_def)

lemmas scenario_simps =
  db_query_scenario_sim scenario_sim_fields product_def dict_of_def



text \<open>
  Claim C6 as stated fails on \<^const>\<open>validate_products\<close>: with a single product missing
  on a node, the pass reports it.
\<close>

theorem validate_products_no_tolerance_counterexample:
  "filter (\<lambda>i. issue_pc_id i = ''PC-ESTQ'')
     (fst (validate_products
        (scenario_sim [product ''prod-1'' 5, product ''prod-2'' 7] [product ''prod-1'' 5])
        ''t0'' SyncValidator_init)) =
     [MISSING_PRODUCT ''PC-ESTQ'' ''prod-2'' ''Product prod-2 missing on PC-ESTQ'']"
  by (simp add: validate_products_def Let_def PC_CONFIG_def pc_issues_def
        missing_products_def price_mismatches_def scenario_simps)

text \<open>The theorem at one missing product and one missing seed id.\<close>

theorem missing_entity_tolerance_witness:
  "filter (\<lambda>i. issue_pc_id i = ''PC-ESTQ'' \<and> issue_product_id i = ''prod-2'')
     (fst (validate_products
        (scenario_sim [product ''prod-1'' 5, product ''prod-2'' 7] [product ''prod-1'' 5])
        ''t0'' SyncValidator_init)) =
     [MISSING_PRODUCT ''PC-ESTQ'' ''prod-2'' ''Product prod-2 missing on PC-ESTQ'']
   \<and> fst (test_stock_consistency (seed_sim [''prod-1'', ''prod-2''] [''prod-1'']) ''PC-ESTQ'')
       = Returns (Py_List [])
   \<and> filter (\<lambda>e. log_level e = ''DEBUG'')
       (snd (test_stock_consistency (seed_sim [''prod-1'', ''prod-2''] [''prod-1'']) ''PC-ESTQ''))
       = [\<lparr>log_level = ''DEBUG'', log_category = ''SYNC'', log_pc_id = ''PC-ESTQ'',
           log_message = ''Minor sync difference'', log_context = [(''missing'', ''1'')]\<rparr>]"
proof -
  have n: "''PC-ESTQ'' \<noteq> ''PC-PDV-01''" by simp
  have c: "card ({''prod-1'', ''prod-2''} - {''prod-1''}) = 1"
    by simp
  show ?thesis
    using missing_entity_tolerance [where pc = "''PC-ESTQ''"
        and env = "scenario_sim [product ''prod-1'' 5, product ''prod-2'' 7] [product ''prod-1'' 5]"
        and x = "''prod-2''" and master_prod = "product ''prod-2'' 7"
        and henv = "seed_sim [''prod-1'', ''prod-2''] [''prod-1'']"
        and m = "[''prod-1'', ''prod-2'']" and l = "[''prod-1'']"
        and now = "''t0''" and v = SyncValidator_init, OF PC_ESTQ_in_roster n]
    by (simp add: scenario_simps seed_sim_def c str_nat.simps)
qed

section \<open>Properties of the alerts\<close>

lemma check_pc_alerts_present:
  assumes "db_exists (env pc)"
  shows "alerts (snd (check_pc env now mon pc)) =
           alerts mon @ (if errors (fst (check_pc env now mon pc)) \<noteq> []
                         then [\<lparr>alert_time = now, alert_pc_id = pc, alert_level = ''ERROR'',
                                alert_messages = errors (fst (check_pc env now mon pc))\<rparr>]
                         else [])"
  using assms
  by (simp add: check_pc_def record_status_def health_try_block_def Let_def
      split: log_file.splits)

lemma check_pc_alerts_prefix: "prefix (alerts mon) (alerts (snd (check_pc env now mon pc)))"
proof (cases "db_exists (env pc)")
  case True
  then show ?thesis by (simp add: check_pc_alerts_present)
next
  case False
  then show ?thesis by (simp add: check_pc_def Let_def)
qed

lemma check_all_alerts_prefix: "prefix (alerts mon) (alerts (check_all env now mon))"
proof -
  have "prefix (alerts mon)
          (alerts (foldl (\<lambda>m pc. snd (check_pc env now m (pc_ident pc))) mon pcs))" for pcs
  proof (induction pcs arbitrary: mon)
    case Nil
    show ?case by simp
  next
    case (Cons p pcs)
    have "prefix (alerts mon) (alerts (snd (check_pc env now mon (pc_ident p))))"
      by (rule check_pc_alerts_prefix)
    also have "prefix \<dots> (alerts (foldl (\<lambda>m pc. snd (check_pc env now m (pc_ident pc)))
        (snd (check_pc env now mon (pc_ident p))) pcs))"
      by (rule Cons.IH)
    finally show ?case by simp
  qed
  then show ?thesis by (simp add: check_all_def)
qed

text \<open>
  Claim C7, as amended. A health check only appends to the alerts: the alerts before it
  are a prefix of the alerts after it. For a node whose database file exists, the check
  appends exactly one alert, with the time of the status, the node, the level
  \<^verbatim>\<open>ERROR\<close> and the errors of the status as messages, whenever the new status has an
  error, whatever the previous status was, and none otherwise. A cycle of the runner
  leaves the alerts that its health checks leave: the findings of
  \<^const>\<open>validate_products\<close> add none.
\<close>

theorem alerts_per_check:
  "prefix (alerts mon) (alerts (snd (check_pc env now mon pc)))
   \<and> (db_exists (env pc) \<longrightarrow>
        alerts (snd (check_pc env now mon pc)) =
          alerts mon @ (if errors (fst (check_pc env now mon pc)) \<noteq> []
                        then [\<lparr>alert_time = now, alert_pc_id = pc, alert_level = ''ERROR'',
                               alert_messages = errors (fst (check_pc env now mon pc))\<rparr>]
                        else []))
   \<and> prefix (alerts (monitor r)) (alerts (monitor (run_cycle env now r)))
   \<and> alerts (monitor (run_cycle env now r)) = alerts (check_all env now (monitor r))"
  by (simp add: check_pc_alerts_prefix check_pc_alerts_present run_cycle_def
      check_all_alerts_prefix)

lemma check_pc_empty_sim:
  "check_pc empty_sim now mon ''PC-GER'' =
     (\<lparr>pc_id = ''PC-GER'', timestamp = now, status = ''ERROR'', db_accessible = True,
       employee_count = 0, product_count = 0, sale_count = 0, network_connected = True,
       last_sync_time = None,
       errors = [''No employees in database'', ''No products in database''], warnings = []\<rparr>,
      record_status mon ''PC-GER''
       \<lparr>pc_id = ''PC-GER'', timestamp = now, status = ''ERROR'', db_accessible = True,
       employee_count = 0, product_count = 0, sale_count = 0, network_connected = True,
       last_sync_time = None,
       errors = [''No employees in database'', ''No products in database''], warnings = []\<rparr>)"
  by (simp add: check_pc_def health_try_block_def empty_sim_def empty_node_def healthy_node_def
      new_status_def get_counts_def db_count_def db_query_def count_query_def
      validate_minimums_def check_network_settings_def check_runtime_log_def
      determine_final_status_def Let_def)

text \<open>The theorem at a node whose database exists and holds no employee and no product.\<close>

theorem alerts_per_check_witness:
  "db_exists (empty_sim ''PC-GER'')
   \<and> alerts (snd (check_pc empty_sim ''t1'' HealthMonitor_init ''PC-GER'')) =
       [\<lparr>alert_time = ''t1'', alert_pc_id = ''PC-GER'', alert_level = ''ERROR'',
         alert_messages = [''No employees in database'', ''No products in database'']\<rparr>]"
proof -
  have h: "db_exists (empty_sim ''PC-GER'')"
    by (simp add: empty_sim_def empty_node_def healthy_node_def)
  show ?thesis
    using h alerts_per_check [where env = empty_sim and pc = "''PC-GER''" and now = "''t1''"
        and mon = HealthMonitor_init and r = ContinuousTestRunner_init]
    by (simp add: check_pc_empty_sim HealthMonitor_init_def)
qed

lemma check_pc_healthy:
  "snd (check_pc (scenario_sim ms ps) now mon pc) =
     record_status mon pc (fst (check_pc (scenario_sim ms ps) now mon pc))
   \<and> errors (fst (check_pc (scenario_sim ms ps) now mon pc)) = []"
  by (simp add: check_pc_def health_try_block_def scenario_sim_def healthy_node_def
      new_status_def get_counts_def db_count_def db_query_def count_query_def
      validate_minimums_def check_network_settings_def check_runtime_log_def
      determine_final_status_def Let_def)

lemma alerts_healthy: "alerts (snd (check_pc (scenario_sim ms ps) now mon pc)) = alerts mon"
  using check_pc_healthy [of ms ps now mon pc] by (simp add: record_status_def)

lemma check_all_healthy: "alerts (check_all (scenario_sim ms ps) now mon) = alerts mon"
  by (simp add: check_all_def PC_CONFIG_def alerts_healthy)

text \<open>
  Claim C7 as stated fails twice. A node that stays in \<^verbatim>\<open>ERROR\<close> over two checks gets
  two alerts, one per check and not one per transition; and a cycle whose divergence
  pass has findings, on nodes that are all healthy, leaves no alert.
\<close>

theorem alerts_per_transition_counterexample:
  "status (fst (check_pc empty_sim ''t1'' HealthMonitor_init ''PC-GER'')) = ''ERROR''
   \<and> map alert_time
        (alerts (snd (check_pc empty_sim ''t2''
           (snd (check_pc empty_sim ''t1'' HealthMonitor_init ''PC-GER'')) ''PC-GER'')))
      = [''t1'', ''t2'']
   \<and> inconsistencies (validator (run_cycle (scenario_sim [product ''A'' 10] []) ''t1''
         ContinuousTestRunner_init)) \<noteq> []
   \<and> alerts (monitor (run_cycle (scenario_sim [product ''A'' 10] []) ''t1''
         ContinuousTestRunner_init)) = []"
  by (simp add: check_pc_empty_sim record_status_def HealthMonitor_init_def run_cycle_def
      ContinuousTestRunner_init_def check_all_healthy validate_products_def Let_def
      PC_CONFIG_def pc_issues_def missing_products_def price_mismatches_def
      db_query_scenario_sim dict_of_def product_def)

section \<open>Properties of the test execution and of the registry\<close>

lemma map_of_update_other: "k \<noteq> k' \<Longrightarrow> map_of (AList.update k' v al) k = map_of al k"
  by (simp add: update_conv')

lemma length_update:
  "length (AList.update k v al) = (if k \<in> fst ` set al then length al else Suc (length al))"
  by (induction al) auto

text \<open>
  Claim C2, as amended. \<^const>\<open>run_test\<close> on a check that returns an empty list (or a
  value that is not a list) records \<^const>\<open>PASSED\<close>; on a non-empty list,
  \<^const>\<open>FAILED\<close> with that list as failures; on an \<^verbatim>\<open>AssertionError\<close>,
  \<^const>\<open>FAILED\<close> with its message as the only failure; on another exception,
  \<^const>\<open>ERROR\<close> with no failure and the message in \<open>error\<close>. Whenever the check comes
  back there is one result, its status is one of these three, the registry afterwards
  maps the id of the result to it and is unchanged at every other id (one entry more
  when the id is new), and the duration is the difference of the two clock readings in
  milliseconds: it is non-negative when the clock has not gone back between them.
\<close>

theorem run_test_outcomes:
  fixes reg pc name cat test_fn uid start finish
  defines "R \<equiv> \<lambda>st fs e.
      \<lparr>test_id = pc @ ''_'' @ name @ ''_'' @ uid, test_name = name, test_pc_id = pc,
       category = cat, test_status = st, duration_ms = (finish - start) * 1000,
       assertions = 0, failures = fs, error = e, test_context = []\<rparr>"
    and "run \<equiv> run_test reg pc name cat test_fn uid start finish"
  shows "(test_fn pc = Returns (Py_List []) \<or> test_fn pc = Returns Py_Other
            \<longrightarrow> run = Some (R PASSED [] None, register reg (R PASSED [] None)))
       \<and> (test_fn pc = Returns (Py_List fs) \<and> fs \<noteq> []
            \<longrightarrow> run = Some (R FAILED fs None, register reg (R FAILED fs None)))
       \<and> (test_fn pc = Raises_AssertionError msg
            \<longrightarrow> run = Some (R FAILED [msg] None, register reg (R FAILED [msg] None)))
       \<and> (test_fn pc = Raises_Exception msg
            \<longrightarrow> run = Some (R ERROR [] (Some msg), register reg (R ERROR [] (Some msg))))
       \<and> (test_fn pc \<noteq> Never_Returns
            \<longrightarrow> (\<exists>r reg'. run = Some (r, reg')
                  \<and> test_status r \<in> {PASSED, FAILED, ERROR}
                  \<and> map_of (results reg') (test_id r) = Some r
                  \<and> (\<forall>k. k \<noteq> test_id r \<longrightarrow> map_of (results reg') k = map_of (results reg) k)
                  \<and> length (results reg') =
                      (if test_id r \<in> fst ` set (results reg) then length (results reg)
                       else Suc (length (results reg)))
                  \<and> duration_ms r = (finish - start) * 1000
                  \<and> (start \<le> finish \<longrightarrow> 0 \<le> duration_ms r)))"
proof (intro conjI impI)
  assume "test_fn pc = Returns (Py_List []) \<or> test_fn pc = Returns Py_Other"
  then show "run = Some (R PASSED [] None, register reg (R PASSED [] None))"
    by (auto simp: run_def R_def run_test_def Let_def)
next
  assume "test_fn pc = Returns (Py_List fs) \<and> fs \<noteq> []"
  then show "run = Some (R FAILED fs None, register reg (R FAILED fs None))"
    by (simp add: run_def R_def run_test_def Let_def)
next
  assume "test_fn pc = Raises_AssertionError msg"
  then show "run = Some (R FAILED [msg] None, register reg (R FAILED [msg] None))"
    by (simp add: run_def R_def run_test_def Let_def)
next
  assume "test_fn pc = Raises_Exception msg"
  then show "run = Some (R ERROR [] (Some msg), register reg (R ERROR [] (Some msg)))"
    by (simp add: run_def R_def run_test_def Let_def)
next
  assume ret: "test_fn pc \<noteq> Never_Returns"
  then have "\<exists>st gs e. classify (test_fn pc) = Some (st, gs, e) \<and> st \<in> {PASSED, FAILED, ERROR}"
    by (cases "test_fn pc" rule: classify.cases) auto
  then obtain st gs e where c: "classify (test_fn pc) = Some (st, gs, e)"
    and st: "st \<in> {PASSED, FAILED, ERROR}"
    by blast
  have run: "run = Some (R st gs e, register reg (R st gs e))"
    using c by (simp add: run_def R_def run_test_def Let_def)
  have "test_status (R st gs e) \<in> {PASSED, FAILED, ERROR}"
    using st by (simp add: R_def)
  moreover have "map_of (results (register reg (R st gs e))) (test_id (R st gs e)) = Some (R st gs e)"
    by (simp add: register_def update_conv')
  moreover have "\<forall>k. k \<noteq> test_id (R st gs e) \<longrightarrow>
      map_of (results (register reg (R st gs e))) k = map_of (results reg) k"
    by (simp add: register_def map_of_update_other)
  moreover have "length (results (register reg (R st gs e))) =
      (if test_id (R st gs e) \<in> fst ` set (results reg) then length (results reg)
       else Suc (length (results reg)))"
    by (simp add: register_def length_update)
  moreover have "duration_ms (R st gs e) = (finish - start) * 1000"
    by (simp add: R_def)
  moreover have "start \<le> finish \<longrightarrow> 0 \<le> duration_ms (R st gs e)"
    by (simp add: R_def)
  ultimately show "\<exists>r reg'. run = Some (r, reg')
                  \<and> test_status r \<in> {PASSED, FAILED, ERROR}
                  \<and> map_of (results reg') (test_id r) = Some r
                  \<and> (\<forall>k. k \<noteq> test_id r \<longrightarrow> map_of (results reg') k = map_of (results reg) k)
                  \<and> length (results reg') =
                      (if test_id r \<in> fst ` set (results reg) then length (results reg)
                       else Suc (length (results reg)))
                  \<and> duration_ms r = (finish - start) * 1000
                  \<and> (start \<le> finish \<longrightarrow> 0 \<le> duration_ms r)"
    using run by blast
qed

text \<open>The theorem at a check that returns two failures, one second apart on the clock.\<close>

theorem run_test_outcomes_witness:
  "run_test TestRegistry_init ''PC-GER'' ''test_required_data'' ''DATABASE''
      (\<lambda>pc. Returns (Py_List [''No categories'', ''No admin''])) ''0a1b2c3d'' 5 6 =
     Some (\<lparr>test_id = ''PC-GER_test_required_data_0a1b2c3d'', test_name = ''test_required_data'',
             test_pc_id = ''PC-GER'', category = ''DATABASE'', test_status = FAILED,
             duration_ms = 1000, assertions = 0, failures = [''No categories'', ''No admin''],
             error = None, test_context = []\<rparr>,
           \<lparr>results = [(''PC-GER_test_required_data_0a1b2c3d'',
              \<lparr>test_id = ''PC-GER_test_required_data_0a1b2c3d'', test_name = ''test_required_data'',
               test_pc_id = ''PC-GER'', category = ''DATABASE'', test_status = FAILED,
               duration_ms = 1000, assertions = 0, failures = [''No categories'', ''No admin''],
               error = None, test_context = []\<rparr>)],
             start_time = 0\<rparr>)"
  using run_test_outcomes [where reg = TestRegistry_init and pc = "''PC-GER''"
      and name = "''test_required_data''" and cat = "''DATABASE''"
      and test_fn = "\<lambda>pc. Returns (Py_List [''No categories'', ''No admin''])"
      and uid = "''0a1b2c3d''" and start = 5 and finish = 6
      and fs = "[''No categories'', ''No admin'']" and msg = "''m''"]
  by (simp add: register_def TestRegistry_init_def)

text \<open>
  Claim C2 as stated fails on the duration: \<^verbatim>\<open>time.time()\<close> is the wall clock, and when
  it is set back by one second during the check the recorded duration is \<open>-1000\<close> ms.
\<close>

theorem run_test_negative_duration_counterexample:
  "map_option (\<lambda>(r, reg). duration_ms r)
     (run_test TestRegistry_init ''PC-GER'' ''test_required_data'' ''DATABASE''
        (\<lambda>pc. Returns (Py_List [])) ''0a1b2c3d'' 6 5) = Some (- 1000)"
  by (simp add: run_test_def Let_def)





section \<open>Properties of the orchestrator\<close>










end
